theory Spec2Isabelle
  imports Complex_Main
begin

section \<open>Python values used by the calculator\<close>

text \<open>
  The calculator of \<^verbatim>\<open>samples/python/main.py\<close> annotates every operand as
  \<^verbatim>\<open>float\<close>; Python admits an \<^verbatim>\<open>int\<close> wherever a \<^verbatim>\<open>float\<close> is
  annotated, and \<^verbatim>\<open>main\<close> passes integer literals. An operand is therefore a Python
  \<^verbatim>\<open>int\<close> (unbounded, an \<open>int\<close>) or a Python \<^verbatim>\<open>float\<close>.

  A Python \<^verbatim>\<open>float\<close> is modelled by the real number it stands for. Rounding, overflow,
  infinities, NaN and signed zeros of IEEE doubles are outside this model: every statement
  below about a float result is a statement about exact real arithmetic.

  The operator \<^verbatim>\<open>**\<close> is the one operation that can leave the reals: a negative base
  with a fractional exponent gives a Python \<^verbatim>\<open>complex\<close>. Results therefore live in a
  type with one more alternative than operands.
\<close>

datatype number = PyInt int | PyFloat real

datatype pyvalue = PyReal number | PyComplex complex

text \<open>
  The exceptions that can leave \<^verbatim>\<open>calculate\<close>. \<open>ValueError\<close> carries its message,
  since the source tells its errors apart by message only. \<open>ZeroDivisionError\<close> is raised
  by Python's own arithmetic, \<open>TypeError\<close> by a call with the wrong number of arguments.
\<close>

datatype error = ValueError string | ZeroDivisionError | TypeError

text \<open>\<^verbatim>\<open>float(x)\<close>: the real number an operand stands for.\<close>

fun float_of :: "number \<Rightarrow> real" where
  "float_of (PyInt i) = of_int i"
| "float_of (PyFloat x) = x"

text \<open>
  \<^verbatim>\<open>a + b\<close>, \<^verbatim>\<open>a - b\<close>, \<^verbatim>\<open>a * b\<close>: two ints give an int, anything else
  a float.
\<close>

fun py_add :: "number \<Rightarrow> number \<Rightarrow> number" where
  "py_add (PyInt i) (PyInt j) = PyInt (i + j)"
| "py_add a b = PyFloat (float_of a + float_of b)"

fun py_sub :: "number \<Rightarrow> number \<Rightarrow> number" where
  "py_sub (PyInt i) (PyInt j) = PyInt (i - j)"
| "py_sub a b = PyFloat (float_of a - float_of b)"

fun py_mul :: "number \<Rightarrow> number \<Rightarrow> number" where
  "py_mul (PyInt i) (PyInt j) = PyInt (i * j)"
| "py_mul a b = PyFloat (float_of a * float_of b)"

text \<open>
  Comparisons between ints and floats compare the numbers they stand for:
  \<^verbatim>\<open>a == b\<close>, \<^verbatim>\<open>a < b\<close>, \<^verbatim>\<open>a <= b\<close>.
\<close>

definition py_eq :: "number \<Rightarrow> number \<Rightarrow> bool" where
  "py_eq a b \<longleftrightarrow> float_of a = float_of b"

definition py_lt :: "number \<Rightarrow> number \<Rightarrow> bool" where
  "py_lt a b \<longleftrightarrow> float_of a < float_of b"

definition py_le :: "number \<Rightarrow> number \<Rightarrow> bool" where
  "py_le a b \<longleftrightarrow> float_of a \<le> float_of b"

text \<open>\<^verbatim>\<open>a / b\<close>: true division, always a float; a zero divisor raises.\<close>

definition py_truediv :: "number \<Rightarrow> number \<Rightarrow> error + number" where
  "py_truediv a b =
     (if float_of b = 0 then Inl ZeroDivisionError
      else Inr (PyFloat (float_of a / float_of b)))"

text \<open>
  \<^verbatim>\<open>x ** y\<close> on floats. A zero exponent gives 1.0 whatever the base; zero to a negative
  power raises \<^verbatim>\<open>ZeroDivisionError\<close>; a negative base with a fractional exponent gives
  the principal complex power \<open>|x|\<^sup>y (cos \<pi>y + i sin \<pi>y)\<close>; a negative base with a
  whole exponent gives the integer power.
\<close>

definition float_pow :: "real \<Rightarrow> real \<Rightarrow> error + pyvalue" where
  "float_pow x y =
     (if y = 0 then Inr (PyReal (PyFloat 1))
      else if x = 0 then
        (if y < 0 then Inl ZeroDivisionError else Inr (PyReal (PyFloat 0)))
      else if x < 0 then
        (if y \<noteq> of_int \<lfloor>y\<rfloor> then Inr (PyComplex (rcis (\<bar>x\<bar> powr y) (pi * y)))
         else Inr (PyReal (PyFloat (x powi \<lfloor>y\<rfloor>))))
      else Inr (PyReal (PyFloat (x powr y))))"

text \<open>
  \<^verbatim>\<open>a ** b\<close>: two ints with a non-negative exponent give an int; every other pair is
  converted to floats.
\<close>

fun py_pow :: "number \<Rightarrow> number \<Rightarrow> error + pyvalue" where
  "py_pow (PyInt i) (PyInt j) =
     (if 0 \<le> j then Inr (PyReal (PyInt (i ^ nat j)))
      else float_pow (of_int i) (of_int j))"
| "py_pow a b = float_pow (float_of a) (float_of b)"

text \<open>\<^verbatim>\<open>math.sqrt(x)\<close>: a float; a negative argument is a domain error.\<close>

definition math_sqrt :: "number \<Rightarrow> error + number" where
  "math_sqrt x =
     (if float_of x < 0 then Inl (ValueError ''math domain error'')
      else Inr (PyFloat (sqrt (float_of x))))"

text \<open>
  \<^verbatim>\<open>math.log(x, base)\<close>: the natural logarithm of \<open>x\<close> divided by the natural
  logarithm of \<open>base\<close>. Each logarithm needs a positive argument, and the division raises
  \<^verbatim>\<open>ZeroDivisionError\<close> when the logarithm of the base is zero.
\<close>

definition math_log :: "number \<Rightarrow> number \<Rightarrow> error + number" where
  "math_log x base =
     (if float_of x \<le> 0 then Inl (ValueError ''math domain error'')
      else if float_of base \<le> 0 then Inl (ValueError ''math domain error'')
      else if ln (float_of base) = 0 then Inl ZeroDivisionError
      else Inr (PyFloat (ln (float_of x) / ln (float_of base))))"

text \<open>\<^verbatim>\<open>json.dumps({"time": "now"})\<close>: the text written for that one dictionary.\<close>

definition json_dumps_time_now :: string where
  \<open>json_dumps_time_now = ''{"time": "now"}''\<close>


section \<open>The data model\<close>

record Calculation =
  operation :: string
  operands :: "number list"
  result :: pyvalue
  timestamp :: string

text \<open>
  A bound method is called with a list of positional arguments and returns a value or raises.
  The calculator owns its history and the table from operation symbol to bound method.
\<close>

type_synonym bound_method = "number list \<Rightarrow> error + pyvalue"

record Calculator =
  history :: "Calculation list"
  operations :: "string \<rightharpoonup> bound_method"


section \<open>The operations\<close>

text \<open>
  The methods of \<^verbatim>\<open>Calculator\<close>, each taking its operands and returning a value or
  raising. \<^verbatim>\<open>divide\<close>, \<^verbatim>\<open>power\<close>, \<^verbatim>\<open>sqrt\<close> and \<^verbatim>\<open>log\<close> are
  named \<open>divide_calc\<close>, \<open>power_calc\<close>, \<open>sqrt_calc\<close> and \<open>log_calc\<close>, their own
  names being constants of HOL.
\<close>

definition add :: "number \<Rightarrow> number \<Rightarrow> error + pyvalue" where
  "add a b = Inr (PyReal (py_add a b))"

definition subtract :: "number \<Rightarrow> number \<Rightarrow> error + pyvalue" where
  "subtract a b = Inr (PyReal (py_sub a b))"

definition multiply :: "number \<Rightarrow> number \<Rightarrow> error + pyvalue" where
  "multiply a b = Inr (PyReal (py_mul a b))"

definition divide_calc :: "number \<Rightarrow> number \<Rightarrow> error + pyvalue" where
  "divide_calc a b =
     (if py_eq b (PyInt 0) then Inl (ValueError ''Cannot divide by zero'')
      else map_sum id PyReal (py_truediv a b))"

definition power_calc :: "number \<Rightarrow> number \<Rightarrow> error + pyvalue" where
  "power_calc a b = py_pow a b"

definition sqrt_calc :: "number \<Rightarrow> error + pyvalue" where
  "sqrt_calc a =
     (if py_lt a (PyInt 0)
      then Inl (ValueError ''Cannot calculate square root of negative number'')
      else map_sum id PyReal (math_sqrt a))"

definition log_calc :: "number \<Rightarrow> number \<Rightarrow> error + pyvalue" where
  "log_calc a base =
     (if py_le a (PyInt 0) \<or> py_le base (PyInt 0)
      then Inl (ValueError ''Invalid arguments for logarithm'')
      else map_sum id PyReal (math_log a base))"

text \<open>
  Calling a method of one parameter, of two parameters, and \<^verbatim>\<open>log\<close>, whose second
  parameter defaults to 10. Any other number of arguments is Python's \<^verbatim>\<open>TypeError\<close>.
\<close>

fun call1 :: "(number \<Rightarrow> error + pyvalue) \<Rightarrow> bound_method" where
  "call1 f [a] = f a"
| "call1 f args = Inl TypeError"

fun call2 :: "(number \<Rightarrow> number \<Rightarrow> error + pyvalue) \<Rightarrow> bound_method" where
  "call2 f [a, b] = f a b"
| "call2 f args = Inl TypeError"

fun call_log :: bound_method where
  "call_log [a] = log_calc a (PyInt 10)"
| "call_log [a, base] = log_calc a base"
| "call_log args = Inl TypeError"

text \<open>\<^verbatim>\<open>Calculator()\<close>: an empty history and the table of the seven operations.\<close>

definition Calculator_init :: Calculator where
  "Calculator_init =
     \<lparr>history = [],
      operations =
        [''+'' \<mapsto> call2 add,
         ''-'' \<mapsto> call2 subtract,
         ''*'' \<mapsto> call2 multiply,
         ''/'' \<mapsto> call2 divide_calc,
         ''**'' \<mapsto> call2 power_calc,
         ''sqrt'' \<mapsto> call1 sqrt_calc,
         ''log'' \<mapsto> call_log]\<rparr>"

text \<open>
  \<^verbatim>\<open>calculate(operation, *operands)\<close>. The result is the value returned or the
  exception raised, together with the calculator as the call leaves it. Every
  \<^verbatim>\<open>raise\<close> of the source comes before the append to the history. The membership
  test \<^verbatim>\<open>operation not in self.operations\<close> and the later
  \<^verbatim>\<open>self.operations[operation]\<close> are one lookup of the table here, the table being
  the same at both places.
\<close>

definition calculate ::
  "string \<Rightarrow> number list \<Rightarrow> Calculator \<Rightarrow> (error + pyvalue) \<times> Calculator" where
  "calculate opn args self =
     (case operations self opn of
        None \<Rightarrow> (Inl (ValueError (''Unknown operation: '' @ opn)), self)
      | Some f \<Rightarrow>
          (case
             (if opn \<in> set [''sqrt'', ''log''] then
                (if length args = 1 then f [args ! 0]
                 else if length args = 2 \<and> opn = ''log'' then f [args ! 0, args ! 1]
                 else Inl (ValueError (''Operation '' @ opn @ '' requires 1-2 operands'')))
              else
                (if length args < 2
                 then Inl (ValueError (''Operation '' @ opn @ '' requires at least 2 operands''))
                 else f [args ! 0, args ! 1]))
           of
             Inl e \<Rightarrow> (Inl e, self)
           | Inr r \<Rightarrow>
               (Inr r,
                self\<lparr>history := history self @
                  [\<lparr>operation = opn, operands = args, result = r,
                    timestamp = json_dumps_time_now\<rparr>]\<rparr>)))"

definition get_history :: "Calculator \<Rightarrow> Calculation list" where
  "get_history self = history self"

definition clear_history :: "Calculator \<Rightarrow> Calculator" where
  "clear_history self = self\<lparr>history := []\<rparr>"


section \<open>Sequences of calls\<close>

text \<open>
  A client changes a calculator through \<^verbatim>\<open>calculate\<close> and \<^verbatim>\<open>clear_history\<close> only.
  The states a calculator can be in are those reached from \<^verbatim>\<open>Calculator()\<close> by a
  sequence of such calls; a call that raises leaves the state it found.
\<close>

datatype request = Calculate string "number list" | Clear_history

fun perform :: "Calculator \<Rightarrow> request \<Rightarrow> Calculator" where
  "perform self (Calculate opn args) = snd (calculate opn args self)"
| "perform self Clear_history = clear_history self"


section \<open>Facts about the table and the state\<close>

lemma operations_init_lookup:
  "operations Calculator_init ''+'' = Some (call2 add)"
  "operations Calculator_init ''-'' = Some (call2 subtract)"
  "operations Calculator_init ''*'' = Some (call2 multiply)"
  "operations Calculator_init ''/'' = Some (call2 divide_calc)"
  "operations Calculator_init ''**'' = Some (call2 power_calc)"
  "operations Calculator_init ''sqrt'' = Some (call1 sqrt_calc)"
  "operations Calculator_init ''log'' = Some call_log"
  by (simp_all add: Calculator_init_def)

lemma operations_init_unknown:
  "opn \<notin> {''+'', ''-'', ''*'', ''/'', ''**'', ''sqrt'', ''log''} \<Longrightarrow>
     operations Calculator_init opn = None"
  by (simp add: Calculator_init_def)

lemma fst_sum_case:
  "fst (case x of Inl e \<Rightarrow> (Inl e, s) | Inr r \<Rightarrow> (Inr r, g r)) = x"
  by (cases x) simp_all

lemma snd_sum_case:
  "snd (case x of Inl e \<Rightarrow> (Inl e, s) | Inr r \<Rightarrow> (Inr r, g r)) =
     (case x of Inl e \<Rightarrow> s | Inr r \<Rightarrow> g r)"
  by (cases x) simp_all

text \<open>A call that raises leaves the calculator as it was.\<close>

lemma calculate_failure_state:
  assumes "fst (calculate opn args self) = Inl e"
  shows "snd (calculate opn args self) = self"
proof (cases "operations self opn")
  case None
  then show ?thesis by (simp add: calculate_def)
next
  case (Some f)
  with assms show ?thesis
    by (simp add: calculate_def fst_sum_case snd_sum_case split del: if_split)
qed

text \<open>A call that returns has appended one record, built from its own arguments.\<close>

lemma calculate_success_state:
  assumes "fst (calculate opn args self) = Inr r"
  shows "snd (calculate opn args self) =
       self\<lparr>history := history self @
         [\<lparr>operation = opn, operands = args, result = r,
           timestamp = json_dumps_time_now\<rparr>]\<rparr>"
proof (cases "operations self opn")
  case None
  with assms show ?thesis by (simp add: calculate_def)
next
  case (Some f)
  with assms show ?thesis
    by (simp add: calculate_def fst_sum_case snd_sum_case split del: if_split)
qed

lemma calculate_operations:
  "operations (snd (calculate opn args self)) = operations self"
proof (cases "fst (calculate opn args self)")
  case (Inl e)
  then show ?thesis by (simp add: calculate_failure_state)
next
  case (Inr r)
  then show ?thesis by (simp add: calculate_success_state)
qed


text \<open>
  No call changes the table: every state reached from \<^verbatim>\<open>Calculator()\<close> holds the
  table built at construction.
\<close>

lemma perform_operations:
  "operations (perform self req) = operations self"
  by (cases req) (simp_all add: calculate_operations clear_history_def)

lemma foldl_perform_operations:
  "operations (foldl perform self reqs) = operations self"
  by (induction reqs arbitrary: self) (simp_all add: perform_operations)

text \<open>
  A binary operation called with at least two operands calls its table entry on the first
  two, and records the whole operand sequence.
\<close>

lemma binary_lookup:
  assumes "operations self = operations Calculator_init"
    and "opn \<in> {''+'', ''-'', ''*'', ''/'', ''**''}"
  shows "\<exists>f. operations self opn = Some (call2 f)"
  using assms by (auto simp add: operations_init_lookup)

lemma calculate_binary:
  assumes "operations self opn = Some f" and "opn \<noteq> ''sqrt''" and "opn \<noteq> ''log''"
  shows "calculate opn (a # b # rest) self =
           (case f [a, b] of
              Inl e \<Rightarrow> (Inl e, self)
            | Inr r \<Rightarrow>
                (Inr r,
                 self\<lparr>history := history self @
                   [\<lparr>operation = opn, operands = a # b # rest, result = r,
                     timestamp = json_dumps_time_now\<rparr>]\<rparr>))"
  using assms by (simp add: calculate_def)

text \<open>Calls on a fresh calculator that raise, one for each kind of failure.\<close>

lemma fresh_unknown_operation:
  "calculate ''foo'' [PyInt 1, PyInt 2] Calculator_init =
     (Inl (ValueError ''Unknown operation: foo''), Calculator_init)"
  by (simp add: calculate_def Calculator_init_def)

lemma fresh_too_few_operands:
  "calculate ''+'' [PyInt 5] Calculator_init =
     (Inl (ValueError ''Operation + requires at least 2 operands''), Calculator_init)"
  by (simp add: calculate_def operations_init_lookup)

lemma fresh_divide_by_zero:
  "calculate ''/'' [PyInt 1, PyInt 0] Calculator_init =
     (Inl (ValueError ''Cannot divide by zero''), Calculator_init)"
  by (simp add: calculate_def operations_init_lookup divide_calc_def py_eq_def)

lemma fresh_sqrt_negative:
  "calculate ''sqrt'' [PyInt (- 1)] Calculator_init =
     (Inl (ValueError ''Cannot calculate square root of negative number''), Calculator_init)"
  by (simp add: calculate_def operations_init_lookup sqrt_calc_def py_lt_def)

lemma fresh_log_nonpositive:
  "calculate ''log'' [PyInt 0] Calculator_init =
     (Inl (ValueError ''Invalid arguments for logarithm''), Calculator_init)"
  by (simp add: calculate_def operations_init_lookup log_calc_def py_le_def)

lemma fresh_log_base_nonpositive:
  "calculate ''log'' [PyInt 5, PyFloat (- 2)] Calculator_init =
     (Inl (ValueError ''Invalid arguments for logarithm''), Calculator_init)"
  by (simp add: calculate_def operations_init_lookup log_calc_def py_le_def)

lemma fresh_add_three_operands:
  "calculate ''+'' [PyInt 2, PyInt 3, PyInt 4] Calculator_init =
     (Inr (PyReal (PyInt 5)),
      Calculator_init\<lparr>history :=
        [\<lparr>operation = ''+'', operands = [PyInt 2, PyInt 3, PyInt 4],
          result = PyReal (PyInt 5), timestamp = json_dumps_time_now\<rparr>]\<rparr>)"
  by (simp add: calculate_def operations_init_lookup add_def Calculator_init_def)

lemma fresh_add_two_operands:
  "calculate ''+'' [PyInt 2, PyInt 3] Calculator_init =
     (Inr (PyReal (PyInt 5)),
      Calculator_init\<lparr>history :=
        [\<lparr>operation = ''+'', operands = [PyInt 2, PyInt 3],
          result = PyReal (PyInt 5), timestamp = json_dumps_time_now\<rparr>]\<rparr>)"
  by (simp add: calculate_def operations_init_lookup add_def Calculator_init_def)

lemma history_init: "history Calculator_init = []"
  by (simp add: Calculator_init_def)

text \<open>What each operation does on a calculator holding the table built at construction.\<close>

lemma calculate_add_eval:
  assumes "operations self = operations Calculator_init"
  shows "calculate ''+'' [a, b] self =
     (Inr (PyReal (py_add a b)),
      self\<lparr>history := history self @
        [\<lparr>operation = ''+'', operands = [a, b], result = PyReal (py_add a b),
          timestamp = json_dumps_time_now\<rparr>]\<rparr>)"
  using assms by (simp add: calculate_def operations_init_lookup add_def)

lemma calculate_subtract_eval:
  assumes "operations self = operations Calculator_init"
  shows "calculate ''-'' [a, b] self =
     (Inr (PyReal (py_sub a b)),
      self\<lparr>history := history self @
        [\<lparr>operation = ''-'', operands = [a, b], result = PyReal (py_sub a b),
          timestamp = json_dumps_time_now\<rparr>]\<rparr>)"
  using assms by (simp add: calculate_def operations_init_lookup subtract_def)

lemma calculate_multiply_eval:
  assumes "operations self = operations Calculator_init"
  shows "calculate ''*'' [a, b] self =
     (Inr (PyReal (py_mul a b)),
      self\<lparr>history := history self @
        [\<lparr>operation = ''*'', operands = [a, b], result = PyReal (py_mul a b),
          timestamp = json_dumps_time_now\<rparr>]\<rparr>)"
  using assms by (simp add: calculate_def operations_init_lookup multiply_def)

lemma calculate_divide_eval:
  assumes "operations self = operations Calculator_init" and "float_of b \<noteq> 0"
  shows "calculate ''/'' [a, b] self =
     (Inr (PyReal (PyFloat (float_of a / float_of b))),
      self\<lparr>history := history self @
        [\<lparr>operation = ''/'', operands = [a, b],
          result = PyReal (PyFloat (float_of a / float_of b)),
          timestamp = json_dumps_time_now\<rparr>]\<rparr>)"
  using assms
  by (simp add: calculate_def operations_init_lookup divide_calc_def py_eq_def py_truediv_def)

lemma calculate_power_eval:
  assumes "operations self = operations Calculator_init" and "py_pow a b = Inr r"
  shows "calculate ''**'' [a, b] self =
     (Inr r,
      self\<lparr>history := history self @
        [\<lparr>operation = ''**'', operands = [a, b], result = r,
          timestamp = json_dumps_time_now\<rparr>]\<rparr>)"
  using assms by (simp add: calculate_def operations_init_lookup power_calc_def)


lemma calculate_sqrt_eval:
  assumes "operations self = operations Calculator_init" and "0 \<le> float_of a"
  shows "calculate ''sqrt'' [a] self =
     (Inr (PyReal (PyFloat (sqrt (float_of a)))),
      self\<lparr>history := history self @
        [\<lparr>operation = ''sqrt'', operands = [a],
          result = PyReal (PyFloat (sqrt (float_of a))),
          timestamp = json_dumps_time_now\<rparr>]\<rparr>)"
  using assms
  by (simp add: calculate_def operations_init_lookup sqrt_calc_def py_lt_def math_sqrt_def)


lemma log_calc_eval:
  assumes "0 < float_of a" and "0 < float_of base" and "float_of base \<noteq> 1"
  shows "log_calc a base = Inr (PyReal (PyFloat (log (float_of base) (float_of a))))"
  using assms by (simp add: log_calc_def py_le_def math_log_def log_def)




lemma calculate_log1:
  assumes "operations self = operations Calculator_init"
  shows "calculate ''log'' [a] self =
     (case log_calc a (PyInt 10) of
        Inl e \<Rightarrow> (Inl e, self)
      | Inr r \<Rightarrow>
          (Inr r,
           self\<lparr>history := history self @
             [\<lparr>operation = ''log'', operands = [a], result = r,
               timestamp = json_dumps_time_now\<rparr>]\<rparr>))"
  using assms by (simp add: calculate_def operations_init_lookup)

lemma log_10_100: "log 10 100 = (2::real)"
proof -
  have "log 10 (10 ^ 2) = (2::real)"
    by (simp only: log_nat_power [of 10 10 2]) simp
  then show ?thesis by simp
qed






text \<open>Every call keeps the records of the history stamped with the one constant text.\<close>

lemma perform_timestamps:
  assumes "\<forall>c \<in> set (history self). timestamp c = json_dumps_time_now"
  shows "\<forall>c \<in> set (history (perform self req)). timestamp c = json_dumps_time_now"
proof (cases req)
  case (Calculate opn args)
  show ?thesis
  proof (cases "fst (calculate opn args self)")
    case (Inl e)
    with assms Calculate show ?thesis by (simp add: calculate_failure_state)
  next
    case (Inr r)
    with assms Calculate show ?thesis by (simp add: calculate_success_state)
  qed
next
  case Clear_history
  then show ?thesis by (simp add: clear_history_def)
qed

lemma foldl_perform_timestamps:
  assumes "\<forall>c \<in> set (history self). timestamp c = json_dumps_time_now"
  shows "\<forall>c \<in> set (history (foldl perform self reqs)). timestamp c = json_dumps_time_now"
  using assms
proof (induction reqs arbitrary: self)
  case Nil
  then show ?case by simp
next
  case (Cons req reqs)
  from Cons.prems have "\<forall>c \<in> set (history (perform self req)). timestamp c = json_dumps_time_now"
    by (rule perform_timestamps)
  then show ?case using Cons.IH by simp
qed


section \<open>Division\<close>




section \<open>Failures and the history\<close>

text \<open>
  Claim C2. A call to \<^verbatim>\<open>calculate\<close> that fails, whatever the error (unknown operation,
  invalid operand count, division by zero, negative square-root argument, non-positive
  logarithm argument or base), leaves the history exactly as it was; a call that succeeds
  appends one record. So only successful calls append to the history.
\<close>

theorem calculate_history_on_failure:
  "(fst (calculate opn args self) = Inl e \<longrightarrow>
      history (snd (calculate opn args self)) = history self) \<and>
   (fst (calculate opn args self) = Inr r \<longrightarrow>
      history (snd (calculate opn args self)) =
        history self @
          [\<lparr>operation = opn, operands = args, result = r,
            timestamp = json_dumps_time_now\<rparr>])"
  by (simp add: calculate_failure_state calculate_success_state)

theorem calculate_history_on_failure_witness:
  "fst (calculate ''foo'' [PyInt 1, PyInt 2] Calculator_init) =
     Inl (ValueError ''Unknown operation: foo'') \<and>
   history (snd (calculate ''foo'' [PyInt 1, PyInt 2] Calculator_init)) =
     history Calculator_init \<and>
   fst (calculate ''+'' [PyInt 5] Calculator_init) =
     Inl (ValueError ''Operation + requires at least 2 operands'') \<and>
   history (snd (calculate ''+'' [PyInt 5] Calculator_init)) = history Calculator_init \<and>
   fst (calculate ''/'' [PyInt 1, PyInt 0] Calculator_init) =
     Inl (ValueError ''Cannot divide by zero'') \<and>
   history (snd (calculate ''/'' [PyInt 1, PyInt 0] Calculator_init)) =
     history Calculator_init \<and>
   fst (calculate ''sqrt'' [PyInt (- 1)] Calculator_init) =
     Inl (ValueError ''Cannot calculate square root of negative number'') \<and>
   history (snd (calculate ''sqrt'' [PyInt (- 1)] Calculator_init)) =
     history Calculator_init \<and>
   fst (calculate ''log'' [PyInt 0] Calculator_init) =
     Inl (ValueError ''Invalid arguments for logarithm'') \<and>
   history (snd (calculate ''log'' [PyInt 0] Calculator_init)) = history Calculator_init \<and>
   fst (calculate ''log'' [PyInt 5, PyFloat (- 2)] Calculator_init) =
     Inl (ValueError ''Invalid arguments for logarithm'') \<and>
   history (snd (calculate ''log'' [PyInt 5, PyFloat (- 2)] Calculator_init)) =
     history Calculator_init \<and>
   fst (calculate ''+'' [PyInt 2, PyInt 3] Calculator_init) = Inr (PyReal (PyInt 5)) \<and>
   history (snd (calculate ''+'' [PyInt 2, PyInt 3] Calculator_init)) =
     history Calculator_init @
       [\<lparr>operation = ''+'', operands = [PyInt 2, PyInt 3], result = PyReal (PyInt 5),
         timestamp = json_dumps_time_now\<rparr>]"
proof -
  have unknown: "fst (calculate ''foo'' [PyInt 1, PyInt 2] Calculator_init) =
      Inl (ValueError ''Unknown operation: foo'')"
    by (simp add: fresh_unknown_operation)
  have count: "fst (calculate ''+'' [PyInt 5] Calculator_init) =
      Inl (ValueError ''Operation + requires at least 2 operands'')"
    by (simp add: fresh_too_few_operands)
  have zero: "fst (calculate ''/'' [PyInt 1, PyInt 0] Calculator_init) =
      Inl (ValueError ''Cannot divide by zero'')"
    by (simp add: fresh_divide_by_zero)
  have negative: "fst (calculate ''sqrt'' [PyInt (- 1)] Calculator_init) =
      Inl (ValueError ''Cannot calculate square root of negative number'')"
    by (simp add: fresh_sqrt_negative)
  have argument: "fst (calculate ''log'' [PyInt 0] Calculator_init) =
      Inl (ValueError ''Invalid arguments for logarithm'')"
    by (simp add: fresh_log_nonpositive)
  have base: "fst (calculate ''log'' [PyInt 5, PyFloat (- 2)] Calculator_init) =
      Inl (ValueError ''Invalid arguments for logarithm'')"
    by (simp add: fresh_log_base_nonpositive)
  have succeeding: "fst (calculate ''+'' [PyInt 2, PyInt 3] Calculator_init) =
      Inr (PyReal (PyInt 5))"
    by (simp add: fresh_add_two_operands)
  note failing = calculate_history_on_failure [THEN conjunct1, rule_format]
  note appending = calculate_history_on_failure [THEN conjunct2, rule_format]
  from unknown count zero negative argument base succeeding
    failing [OF unknown] failing [OF count] failing [OF zero] failing [OF negative]
    failing [OF argument] failing [OF base] appending [OF succeeding]
  show ?thesis by simp
qed


section \<open>Logarithm\<close>





section \<open>Square root\<close>




section \<open>Operand counts\<close>

text \<open>
  Claim C5. On a calculator holding the table built at construction, \<^verbatim>\<open>calculate\<close>
  enforces the operand counts: \<^verbatim>\<open>sqrt\<close> with any number of operands other than one
  fails with the operand-count error, and so does \<^verbatim>\<open>log\<close> with any number other than
  one or two, and each binary operation with fewer than two. A binary operation given the
  operands \<open>a, b\<close> and any further ones gives the outcome it gives on \<open>a, b\<close> alone,
  and on success the record holds the whole operand sequence.
\<close>

theorem calculate_operand_counts:
  assumes "operations self = operations Calculator_init"
  shows "(length args \<noteq> 1 \<longrightarrow>
            calculate ''sqrt'' args self =
              (Inl (ValueError ''Operation sqrt requires 1-2 operands''), self)) \<and>
         (length args \<noteq> 1 \<and> length args \<noteq> 2 \<longrightarrow>
            calculate ''log'' args self =
              (Inl (ValueError ''Operation log requires 1-2 operands''), self)) \<and>
         (opn \<in> {''+'', ''-'', ''*'', ''/'', ''**''} \<and> length args < 2 \<longrightarrow>
            calculate opn args self =
              (Inl (ValueError (''Operation '' @ opn @ '' requires at least 2 operands'')),
               self)) \<and>
         (opn \<in> {''+'', ''-'', ''*'', ''/'', ''**''} \<longrightarrow>
            fst (calculate opn (a # b # rest) self) = fst (calculate opn [a, b] self) \<and>
            (fst (calculate opn (a # b # rest) self) = Inr r \<longrightarrow>
               history (snd (calculate opn (a # b # rest) self)) =
                 history self @
                   [\<lparr>operation = opn, operands = a # b # rest, result = r,
                     timestamp = json_dumps_time_now\<rparr>]))"
proof (intro conjI impI)
  assume "length args \<noteq> 1"
  with assms show "calculate ''sqrt'' args self =
      (Inl (ValueError ''Operation sqrt requires 1-2 operands''), self)"
    by (simp add: calculate_def operations_init_lookup)
next
  assume "length args \<noteq> 1 \<and> length args \<noteq> 2"
  with assms show "calculate ''log'' args self =
      (Inl (ValueError ''Operation log requires 1-2 operands''), self)"
    by (simp add: calculate_def operations_init_lookup)
next
  assume h: "opn \<in> {''+'', ''-'', ''*'', ''/'', ''**''} \<and> length args < 2"
  then obtain f where "operations self opn = Some (call2 f)"
    using binary_lookup [OF assms] by blast
  moreover from h have "opn \<noteq> ''sqrt''" "opn \<noteq> ''log''" by auto
  ultimately show "calculate opn args self =
      (Inl (ValueError (''Operation '' @ opn @ '' requires at least 2 operands'')), self)"
    using h by (simp add: calculate_def)
next
  assume h: "opn \<in> {''+'', ''-'', ''*'', ''/'', ''**''}"
  then obtain f where f: "operations self opn = Some (call2 f)"
    using binary_lookup [OF assms] by blast
  from h have ne: "opn \<noteq> ''sqrt''" "opn \<noteq> ''log''" by auto
  show "fst (calculate opn (a # b # rest) self) = fst (calculate opn [a, b] self)"
    by (simp add: calculate_binary [OF f ne] split: sum.split)
next
  assume "fst (calculate opn (a # b # rest) self) = Inr r"
  then show "history (snd (calculate opn (a # b # rest) self)) =
      history self @
        [\<lparr>operation = opn, operands = a # b # rest, result = r,
          timestamp = json_dumps_time_now\<rparr>]"
    by (simp add: calculate_success_state)
qed

theorem calculate_operand_counts_witness:
  "operations Calculator_init = operations Calculator_init \<and>
   length ([] :: number list) \<noteq> 1 \<and> length ([] :: number list) \<noteq> 2 \<and>
   ''+'' \<in> {''+'', ''-'', ''*'', ''/'', ''**''} \<and> length ([] :: number list) < 2 \<and>
   calculate ''sqrt'' [] Calculator_init =
     (Inl (ValueError ''Operation sqrt requires 1-2 operands''), Calculator_init) \<and>
   calculate ''log'' [] Calculator_init =
     (Inl (ValueError ''Operation log requires 1-2 operands''), Calculator_init) \<and>
   calculate ''+'' [] Calculator_init =
     (Inl (ValueError ''Operation + requires at least 2 operands''), Calculator_init) \<and>
   fst (calculate ''+'' [PyInt 2, PyInt 3, PyInt 4] Calculator_init) =
     fst (calculate ''+'' [PyInt 2, PyInt 3] Calculator_init) \<and>
   fst (calculate ''+'' [PyInt 2, PyInt 3, PyInt 4] Calculator_init) = Inr (PyReal (PyInt 5)) \<and>
   history (snd (calculate ''+'' [PyInt 2, PyInt 3, PyInt 4] Calculator_init)) =
     history Calculator_init @
       [\<lparr>operation = ''+'', operands = [PyInt 2, PyInt 3, PyInt 4],
         result = PyReal (PyInt 5), timestamp = json_dumps_time_now\<rparr>]"
proof -
  have three: "fst (calculate ''+'' [PyInt 2, PyInt 3, PyInt 4] Calculator_init) =
      Inr (PyReal (PyInt 5))"
    by (simp add: fresh_add_three_operands)
  from three
    calculate_operand_counts
      [where self = Calculator_init and args = "[]" and opn = "''+''" and a = "PyInt 2"
         and b = "PyInt 3" and rest = "[PyInt 4]" and r = "PyReal (PyInt 5)"]
  show ?thesis by simp
qed


section \<open>Unknown operations\<close>

text \<open>
  Claim C6. On a calculator holding the table built at construction, every operation symbol
  outside the closed set of seven makes \<^verbatim>\<open>calculate\<close> fail with the unknown-operation
  error, whatever the operands and however many there are: the check on the symbol comes
  before any check on the operand count.
\<close>

theorem calculate_unknown_operation:
  assumes "operations self = operations Calculator_init"
    and "opn \<notin> {''+'', ''-'', ''*'', ''/'', ''**'', ''sqrt'', ''log''}"
  shows "calculate opn args self = (Inl (ValueError (''Unknown operation: '' @ opn)), self)"
  using assms operations_init_unknown [of opn] by (simp add: calculate_def)

theorem calculate_unknown_operation_witness:
  "operations Calculator_init = operations Calculator_init \<and>
   ''foo'' \<notin> {''+'', ''-'', ''*'', ''/'', ''**'', ''sqrt'', ''log''} \<and>
   calculate ''foo'' [] Calculator_init =
     (Inl (ValueError ''Unknown operation: foo''), Calculator_init)"
  using calculate_unknown_operation [of Calculator_init "''foo''" "[]"] by simp


section \<open>Power\<close>





section \<open>The calls of the driver\<close>

text \<open>
  Claim C8. Starting from a fresh calculator, the seven calls of \<^verbatim>\<open>main\<close>, in order,
  return 5, 6, 30, 5.0, 256, 4.0 and 2.0 (ints where Python gives ints, floats where it
  gives floats); each call appends one record, so the history has lengths 0 to 7 along the
  way; and \<^verbatim>\<open>get_history\<close> afterwards returns the seven records in call order.
\<close>

theorem main_scenario:
  "(let c0 = Calculator_init;
        (r1, c1) = calculate ''+'' [PyInt 2, PyInt 3] c0;
        (r2, c2) = calculate ''-'' [PyInt 10, PyInt 4] c1;
        (r3, c3) = calculate ''*'' [PyInt 5, PyInt 6] c2;
        (r4, c4) = calculate ''/'' [PyInt 15, PyInt 3] c3;
        (r5, c5) = calculate ''**'' [PyInt 2, PyInt 8] c4;
        (r6, c6) = calculate ''sqrt'' [PyInt 16] c5;
        (r7, c7) = calculate ''log'' [PyInt 100] c6
    in [r1, r2, r3, r4, r5, r6, r7] =
         [Inr (PyReal (PyInt 5)), Inr (PyReal (PyInt 6)), Inr (PyReal (PyInt 30)),
          Inr (PyReal (PyFloat 5)), Inr (PyReal (PyInt 256)), Inr (PyReal (PyFloat 4)),
          Inr (PyReal (PyFloat 2))] \<and>
       map (\<lambda>c. length (get_history c)) [c0, c1, c2, c3, c4, c5, c6, c7] =
         [0, 1, 2, 3, 4, 5, 6, 7] \<and>
       get_history c7 =
         [\<lparr>operation = ''+'', operands = [PyInt 2, PyInt 3], result = PyReal (PyInt 5),
            timestamp = json_dumps_time_now\<rparr>,
          \<lparr>operation = ''-'', operands = [PyInt 10, PyInt 4], result = PyReal (PyInt 6),
            timestamp = json_dumps_time_now\<rparr>,
          \<lparr>operation = ''*'', operands = [PyInt 5, PyInt 6], result = PyReal (PyInt 30),
            timestamp = json_dumps_time_now\<rparr>,
          \<lparr>operation = ''/'', operands = [PyInt 15, PyInt 3], result = PyReal (PyFloat 5),
            timestamp = json_dumps_time_now\<rparr>,
          \<lparr>operation = ''**'', operands = [PyInt 2, PyInt 8], result = PyReal (PyInt 256),
            timestamp = json_dumps_time_now\<rparr>,
          \<lparr>operation = ''sqrt'', operands = [PyInt 16], result = PyReal (PyFloat 4),
            timestamp = json_dumps_time_now\<rparr>,
          \<lparr>operation = ''log'', operands = [PyInt 100], result = PyReal (PyFloat 2),
            timestamp = json_dumps_time_now\<rparr>])"
proof -
  have sqrt16: "sqrt 16 = (4::real)"
    using real_sqrt_abs [of 4] by simp
  have pow: "py_pow (PyInt 2) (PyInt 8) = Inr (PyReal (PyInt 256))"
    by simp
  have lg: "log_calc (PyInt 100) (PyInt 10) = Inr (PyReal (PyFloat 2))"
    by (simp add: log_calc_eval log_10_100)
  show ?thesis
    by (simp add: calculate_add_eval calculate_subtract_eval calculate_multiply_eval
        calculate_divide_eval calculate_power_eval [OF _ pow] calculate_sqrt_eval
        calculate_log1 lg sqrt16 get_history_def history_init)
qed


section \<open>Clearing the history\<close>

text \<open>
  Claim C9. In every state, after \<^verbatim>\<open>clear_history()\<close> the history is empty, so
  \<^verbatim>\<open>get_history()\<close> returns the empty sequence, and the operation table is unchanged; a
  following successful \<^verbatim>\<open>calculate\<close> appends exactly one record, so the history then
  has length 1.
\<close>

theorem clear_history_then_calculate:
  "get_history (clear_history self) = [] \<and>
   operations (clear_history self) = operations self \<and>
   (fst (calculate opn args (clear_history self)) = Inr r \<longrightarrow>
      get_history (snd (calculate opn args (clear_history self))) =
        [\<lparr>operation = opn, operands = args, result = r,
          timestamp = json_dumps_time_now\<rparr>] \<and>
      length (get_history (snd (calculate opn args (clear_history self)))) = 1)"
  by (simp add: get_history_def clear_history_def calculate_success_state)

theorem clear_history_then_calculate_witness:
  "get_history (clear_history (snd (calculate ''+'' [PyInt 2, PyInt 3] Calculator_init))) = [] \<and>
   fst (calculate ''+'' [PyInt 2, PyInt 3]
          (clear_history (snd (calculate ''+'' [PyInt 2, PyInt 3] Calculator_init)))) =
     Inr (PyReal (PyInt 5)) \<and>
   length (get_history (snd (calculate ''+'' [PyInt 2, PyInt 3]
          (clear_history (snd (calculate ''+'' [PyInt 2, PyInt 3] Calculator_init)))))) = 1"
proof -
  have cleared: "clear_history (snd (calculate ''+'' [PyInt 2, PyInt 3] Calculator_init)) =
      Calculator_init"
    unfolding fresh_add_two_operands clear_history_def
    by (simp add: Calculator_init_def)
  have again: "fst (calculate ''+'' [PyInt 2, PyInt 3]
      (clear_history (snd (calculate ''+'' [PyInt 2, PyInt 3] Calculator_init)))) =
      Inr (PyReal (PyInt 5))"
    unfolding cleared by (simp add: fresh_add_two_operands)
  from again
    clear_history_then_calculate
      [of "snd (calculate ''+'' [PyInt 2, PyInt 3] Calculator_init)" "''+''"
         "[PyInt 2, PyInt 3]" "PyReal (PyInt 5)"]
  show ?thesis by simp
qed


section \<open>The timestamp\<close>

text \<open>
  Claim C10. Every record that \<^verbatim>\<open>calculate\<close> appends carries the same constant
  timestamp, the JSON text \<^verbatim>\<open>{"time": "now"}\<close>, whatever the state and the arguments
  of the call; so in any state reached from a fresh calculator by any sequence of calls,
  every record of the history carries that text and any two records have equal timestamps.
\<close>

theorem timestamp_constant:
  \<open>(fst (calculate opn args self) = Inr r \<longrightarrow>
      timestamp (last (history (snd (calculate opn args self)))) = ''{"time": "now"}'') \<and>
   (c1 \<in> set (history (foldl perform Calculator_init reqs)) \<and>
    c2 \<in> set (history (foldl perform Calculator_init reqs)) \<longrightarrow>
      timestamp c1 = ''{"time": "now"}'' \<and> timestamp c1 = timestamp c2)\<close>
proof (intro conjI impI)
  assume "fst (calculate opn args self) = Inr r"
  then show \<open>timestamp (last (history (snd (calculate opn args self)))) = ''{"time": "now"}''\<close>
    by (simp add: calculate_success_state json_dumps_time_now_def)
next
  assume h: "c1 \<in> set (history (foldl perform Calculator_init reqs)) \<and>
    c2 \<in> set (history (foldl perform Calculator_init reqs))"
  have "\<forall>c \<in> set (history Calculator_init). timestamp c = json_dumps_time_now"
    by (simp add: Calculator_init_def)
  then have all: "\<forall>c \<in> set (history (foldl perform Calculator_init reqs)).
      timestamp c = json_dumps_time_now"
    by (rule foldl_perform_timestamps)
  from h all show \<open>timestamp c1 = ''{"time": "now"}''\<close>
    by (simp add: json_dumps_time_now_def)
  from h all show "timestamp c1 = timestamp c2" by simp
qed

theorem timestamp_constant_witness:
  \<open>fst (calculate ''+'' [PyInt 2, PyInt 3] Calculator_init) = Inr (PyReal (PyInt 5)) \<and>
   timestamp (last (history (snd (calculate ''+'' [PyInt 2, PyInt 3] Calculator_init)))) =
     ''{"time": "now"}'' \<and>
   \<lparr>operation = ''+'', operands = [PyInt 2, PyInt 3], result = PyReal (PyInt 5),
     timestamp = json_dumps_time_now\<rparr>
     \<in> set (history (foldl perform Calculator_init
          [Calculate ''+'' [PyInt 2, PyInt 3], Calculate ''-'' [PyInt 10, PyInt 4]])) \<and>
   \<lparr>operation = ''-'', operands = [PyInt 10, PyInt 4], result = PyReal (PyInt 6),
     timestamp = json_dumps_time_now\<rparr>
     \<in> set (history (foldl perform Calculator_init
          [Calculate ''+'' [PyInt 2, PyInt 3], Calculate ''-'' [PyInt 10, PyInt 4]])) \<and>
   timestamp \<lparr>operation = ''+'', operands = [PyInt 2, PyInt 3], result = PyReal (PyInt 5),
     timestamp = json_dumps_time_now\<rparr> = ''{"time": "now"}'' \<and>
   timestamp \<lparr>operation = ''+'', operands = [PyInt 2, PyInt 3], result = PyReal (PyInt 5),
     timestamp = json_dumps_time_now\<rparr> =
   timestamp \<lparr>operation = ''-'', operands = [PyInt 10, PyInt 4], result = PyReal (PyInt 6),
     timestamp = json_dumps_time_now\<rparr>\<close>
proof -
  have first: "fst (calculate ''+'' [PyInt 2, PyInt 3] Calculator_init) = Inr (PyReal (PyInt 5))"
    by (simp add: calculate_add_eval)
  have run: "history (foldl perform Calculator_init
      [Calculate ''+'' [PyInt 2, PyInt 3], Calculate ''-'' [PyInt 10, PyInt 4]]) =
    [\<lparr>operation = ''+'', operands = [PyInt 2, PyInt 3], result = PyReal (PyInt 5),
       timestamp = json_dumps_time_now\<rparr>,
     \<lparr>operation = ''-'', operands = [PyInt 10, PyInt 4], result = PyReal (PyInt 6),
       timestamp = json_dumps_time_now\<rparr>]"
    by (simp add: calculate_add_eval calculate_subtract_eval history_init)
  from first run
    timestamp_constant
      [where opn = "''+''" and args = "[PyInt 2, PyInt 3]" and self = Calculator_init
         and r = "PyReal (PyInt 5)"
         and reqs = "[Calculate ''+'' [PyInt 2, PyInt 3], Calculate ''-'' [PyInt 10, PyInt 4]]"
         and ?c1.0 = "\<lparr>operation = ''+'', operands = [PyInt 2, PyInt 3],
           result = PyReal (PyInt 5), timestamp = json_dumps_time_now\<rparr>"
         and ?c2.0 = "\<lparr>operation = ''-'', operands = [PyInt 10, PyInt 4],
           result = PyReal (PyInt 6), timestamp = json_dumps_time_now\<rparr>"]
  show ?thesis by simp
qed

end
